theory Spec2Isabelle
  imports Complex_Main "HOL-Library.Sublist"
begin

section \<open>Numbers\<close>

text \<open>
  The program computes with JavaScript numbers. They are read here as real numbers with
  exact arithmetic; rounding of IEEE doubles, infinities and NaN are not part of the
  model, and where the source can produce \<^verbatim>\<open>-Infinity\<close> or \<^verbatim>\<open>NaN\<close>
  the definitions say how that value is used.
\<close>

text \<open>
  \<^verbatim>\<open>parseFloat(x.toFixed(d))\<close>: the decimal with \<open>d\<close> fractional digits nearest to
  \<open>x\<close>; of two equally near ones \<^verbatim>\<open>toFixed\<close> takes the larger magnitude (it
  rounds \<open>|x|\<close> and puts the sign back).
\<close>

definition toFixed :: "real \<Rightarrow> nat \<Rightarrow> real" where
  "toFixed x d =
     (if x < 0 then - (real_of_int \<lfloor>(- x) * 10 ^ d + 1 / 2\<rfloor> / 10 ^ d)
      else real_of_int \<lfloor>x * 10 ^ d + 1 / 2\<rfloor> / 10 ^ d)"

text \<open>
  \<^verbatim>\<open>Math.max(...xs)\<close>: the largest element; \<open>None\<close> stands for the
  \<^verbatim>\<open>-Infinity\<close> that JavaScript returns for an empty argument list.
\<close>

fun Math_max :: "real list \<Rightarrow> real option" where
  "Math_max [] = None"
| "Math_max (x # xs) = Some (fold max xs x)"

section \<open>Preprocessor (csvParser.js, lines 379--490)\<close>

definition transmittanceToAbsorbance :: "real list \<Rightarrow> real list" where
  "transmittanceToAbsorbance transmittance =
     map (\<lambda>t. let t_clipped = max (1 / 10) (min t 100) in log 10 (100 / t_clipped)) transmittance"

definition gaussianWeights :: "nat \<Rightarrow> real list" where
  "gaussianWeights sz =
     (let sigma = real sz / 4;
          center = real sz / 2;
          weights = map (\<lambda>i. let x = real i - center in exp (- (x * x) / (2 * sigma * sigma)))
                        [0..<sz];
          total = fold (\<lambda>b a. a + b) weights 0
      in map (\<lambda>w. w / total) weights)"

text \<open>
  The inner loop of \<^verbatim>\<open>fitPolynomial\<close>: one step for weight index \<open>i\<close>, on the
  pair \<open>(num, denom)\<close>.
\<close>

definition fitStep :: "real list \<Rightarrow> real list \<Rightarrow> nat \<Rightarrow> nat \<Rightarrow> real \<times> real \<Rightarrow> real \<times> real" where
  "fitStep data weights idx i acc =
     (let dataIdx = int idx - int (length weights div 2) + int i
      in if 0 \<le> dataIdx \<and> dataIdx < int (length data)
         then (fst acc + data ! nat dataIdx * weights ! i, snd acc + weights ! i)
         else acc)"

text \<open>
  \<^verbatim>\<open>fitPolynomial\<close> builds a matrix of powers that it never reads; what it returns
  is the weighted average below.
\<close>

definition fitPolynomial :: "real list \<Rightarrow> nat \<Rightarrow> real list" where
  "fitPolynomial data degree =
     (let weights = gaussianWeights (degree + 1)
      in map (\<lambda>idx.
                let acc = fold (fitStep data weights idx) [0..<length weights] (0, 0)
                in if snd acc > 0 then fst acc / snd acc else data ! idx)
             [0..<length data])"

text \<open>
  The window length and the polynomial order are counts, hence natural numbers. The first
  three statements of \<^verbatim>\<open>savitzkyGolayFilter\<close> make the window length odd and at least
  \<open>polyorder + 1\<close>.
\<close>

definition adjustWindow :: "nat \<Rightarrow> nat \<Rightarrow> nat" where
  "adjustWindow windowLength polyorder =
     (let w1 = (if windowLength mod 2 = 0 then windowLength + 1 else windowLength);
          w2 = (if w1 < polyorder + 1 then polyorder + 1 else w1);
          w3 = (if w2 mod 2 = 0 then w2 + 1 else w2)
      in w3)"

text \<open>
  The window \<^verbatim>\<open>data.slice(start, end)\<close> always holds index \<open>i\<close>, so the index
  \<^verbatim>\<open>Math.floor(window.length / 2)\<close> is inside \<^verbatim>\<open>fitted\<close>.
\<close>

definition savitzkyGolayFilter :: "real list \<Rightarrow> nat \<Rightarrow> nat \<Rightarrow> real list" where
  "savitzkyGolayFilter data windowLength polyorder =
     (let windowLength' = adjustWindow windowLength polyorder
      in if length data < windowLength' then data
         else let half = windowLength' div 2
              in map (\<lambda>i. let start = i - half;
                              end = min (length data) (i + half + 1);
                              window = take (end - start) (drop start data);
                              fitted = fitPolynomial window polyorder
                          in fitted ! (length window div 2))
                     [0..<length data])"

definition removeLinearBaseline :: "real list \<Rightarrow> real list" where
  "removeLinearBaseline data =
     (let n = length data
      in if n < 2 then data
         else let start = data ! 0;
                  end = data ! (n - 1);
                  baseline = map (\<lambda>i. start + (end - start) * (real i / real (n - 1))) [0..<n]
              in map (\<lambda>(y, i). max 0 (y - baseline ! i)) (zip data [0..<n]))"

section \<open>PeakFinder (csvParser.js, lines 502--710)\<close>

text \<open>
  The two prominence loops of \<^verbatim>\<open>findPeaks\<close>: both start from \<^verbatim>\<open>data[i]\<close>; the
  left one runs over \<^verbatim>\<open>j = Math.max(0, i - 50), ..., i - 1\<close>, the right one over
  \<^verbatim>\<open>j = i + 1, ..., Math.min(data.length, i + 50) - 1\<close>.
\<close>

definition minLeft :: "real list \<Rightarrow> nat \<Rightarrow> real" where
  "minLeft data i = fold (\<lambda>j m. min m (data ! j)) [i - 50..<i] (data ! i)"

definition minRight :: "real list \<Rightarrow> nat \<Rightarrow> real" where
  "minRight data i = fold (\<lambda>j m. min m (data ! j)) [i + 1..<min (length data) (i + 50)] (data ! i)"

definition peakProminence :: "real list \<Rightarrow> nat \<Rightarrow> real" where
  "peakProminence data i = min (data ! i - minLeft data i) (data ! i - minRight data i)"

text \<open>The test of the first loop, for an index \<open>i\<close> with \<open>1 \<le> i < length data - 1\<close>.\<close>

definition isPeak :: "real list \<Rightarrow> real \<Rightarrow> real \<Rightarrow> nat \<Rightarrow> bool" where
  "isPeak data height prominence i =
     (data ! i > data ! (i - 1) \<and> data ! i > data ! (i + 1) \<and> data ! i \<ge> height
      \<and> peakProminence data i \<ge> prominence)"

definition localMaxima :: "real list \<Rightarrow> real \<Rightarrow> real \<Rightarrow> nat list" where
  "localMaxima data height prominence =
     filter (isPeak data height prominence) [1..<length data - 1]"

text \<open>The distance loop: \<open>filtered\<close> is the list of the peaks kept so far.\<close>

fun distanceFilter :: "nat \<Rightarrow> nat list \<Rightarrow> nat list \<Rightarrow> nat list" where
  "distanceFilter distance [] filtered = filtered"
| "distanceFilter distance (p # peaks) filtered =
     (if list_ex (\<lambda>q. \<bar>int p - int q\<bar> < int distance) filtered
      then distanceFilter distance peaks filtered
      else distanceFilter distance peaks (filtered @ [p]))"

definition leftEdge :: "real list \<Rightarrow> nat \<Rightarrow> nat" where
  "leftEdge data peakIdx =
     (case find (\<lambda>i. data ! i < data ! peakIdx / 2) (rev [0..<peakIdx]) of
        Some i \<Rightarrow> i | None \<Rightarrow> peakIdx)"

definition rightEdge :: "real list \<Rightarrow> nat \<Rightarrow> nat" where
  "rightEdge data peakIdx =
     (case find (\<lambda>i. data ! i < data ! peakIdx / 2) [peakIdx + 1..<length data] of
        Some i \<Rightarrow> i | None \<Rightarrow> peakIdx)"

record peakProperties =
  peak_heights :: "real list"
  width :: "real list"
  prominences :: "real list"

record findPeaksResult =
  peaks :: "nat list"
  properties :: peakProperties

text \<open>
  \<open>None\<close> for \<open>prominence\<close> or \<open>distance\<close> is the \<^verbatim>\<open>null\<close> default. For an empty
  signal the default prominence is \<^verbatim>\<open>-Infinity * 0.05\<close>; no index is tested against it
  then, and \<open>0\<close> stands in for it.
\<close>

definition findPeaks :: "real list \<Rightarrow> real \<Rightarrow> real option \<Rightarrow> nat option \<Rightarrow> findPeaksResult" where
  "findPeaks data height prominence distance =
     (let prominence' = (case prominence of
                           Some p \<Rightarrow> p
                         | None \<Rightarrow> (case Math_max data of
                                       Some maxVal \<Rightarrow> maxVal * (5 / 100) | None \<Rightarrow> 0));
          distance' = (case distance of
                         Some d \<Rightarrow> d
                       | None \<Rightarrow> (if length data div 200 = 0 then 1 else length data div 200));
          found = localMaxima data height prominence';
          filtered = distanceFilter distance' found [];
          filteredHeights = map (\<lambda>i. data ! i) filtered;
          widths = map (\<lambda>peakIdx. real (rightEdge data peakIdx) - real (leftEdge data peakIdx))
                       filtered
      in \<lparr>peaks = filtered,
          properties = \<lparr>peak_heights = filteredHeights, width = widths,
                         prominences = map (\<lambda>_. prominence') filtered\<rparr>\<rparr>)"



record peak =
  position :: real
  intensity :: real
  fwhm :: real
  height :: real
  prominence :: real
  snr :: real
  index :: nat



datatype error = TypeError

text \<open>
  \<^verbatim>\<open>Array.prototype.sort\<close> with a comparator is a stable sort (ECMAScript 2019): an
  element is moved in front of another one only where the comparator is negative.
\<close>

fun insertSorted :: "('a \<Rightarrow> 'a \<Rightarrow> real) \<Rightarrow> 'a \<Rightarrow> 'a list \<Rightarrow> 'a list" where
  "insertSorted cmp x [] = [x]"
| "insertSorted cmp x (y # ys) =
     (if cmp x y \<le> 0 then x # y # ys else y # insertSorted cmp x ys)"

definition sortBy :: "('a \<Rightarrow> 'a \<Rightarrow> real) \<Rightarrow> 'a list \<Rightarrow> 'a list" where
  "sortBy cmp xs = foldr (insertSorted cmp) xs []"


section \<open>Matcher (ruleMatcher.js)\<close>

text \<open>
  The rule database is a JSON document. A field that may be absent is an \<open>option\<close>;
  \<^verbatim>\<open>x || d\<close> takes the default \<open>d\<close> when \<open>x\<close> is absent and also when it is falsy
  (the number 0, the empty string). The vibration modes are listed in the order in which
  \<^verbatim>\<open>Object.entries\<close> enumerates them.
\<close>

record peakSpec =
  wavenumber :: "(real \<times> real) option"
  shape :: "string option"
  specIntensity :: "string option"
  required :: bool

record subtype =
  subtypeId :: "string option"
  subtypeSource :: "string option"
  subtypeConfidence :: "real option"
  primaryPeak :: "peakSpec option"
  secondaryPeaks :: "peakSpec list option"
  subtypeNotes :: "string option"

record mode =
  name :: "string option"
  subTypes :: "subtype list option"

type_synonym rulesDb = "(string \<times> mode) list"

definition orString :: "string option \<Rightarrow> string \<Rightarrow> string" where
  "orString x d = (case x of None \<Rightarrow> d | Some s \<Rightarrow> if s = [] then d else s)"

definition orNumber :: "real option \<Rightarrow> real \<Rightarrow> real" where
  "orNumber x d = (case x of None \<Rightarrow> d | Some v \<Rightarrow> if v = 0 then d else v)"

definition wavenumberMatch :: "real \<Rightarrow> real \<times> real \<Rightarrow> real \<Rightarrow> bool" where
  "wavenumberMatch peakPosition ruleRange tolerance =
     (let minWn = fst ruleRange;
          maxWn = snd ruleRange;
          rangeSize = maxWn - minWn;
          tol = rangeSize * tolerance
      in minWn - tol \<le> peakPosition \<and> peakPosition \<le> maxWn + tol)"

definition shapeSpecs :: "string \<Rightarrow> (real \<times> real) option" where
  "shapeSpecs ruleShape =
     (if ruleShape = ''sharp'' then Some (10, 50)
      else if ruleShape = ''medium'' then Some (50, 100)
      else if ruleShape = ''broad'' then Some (100, 300)
      else if ruleShape = ''very-broad'' then Some (300, 1200)
      else if ruleShape = ''medium-broad'' then Some (80, 150)
      else None)"

definition shapeMatch :: "real \<Rightarrow> string \<Rightarrow> bool \<times> real" where
  "shapeMatch peakFWHM ruleShape =
     (case shapeSpecs ruleShape of
        None \<Rightarrow> (True, 0)
      | Some (minFwhm, maxFwhm) \<Rightarrow>
          if minFwhm \<le> peakFWHM \<and> peakFWHM \<le> maxFwhm then (True, 5 / 100)
          else if peakFWHM < minFwhm * (7 / 10) then (False, - (2 / 10))
          else if peakFWHM > maxFwhm * (15 / 10) then (False, - (2 / 10))
          else (True, 0))"

definition thresholds :: "string \<Rightarrow> (real \<times> real) option" where
  "thresholds ruleIntensity =
     (if ruleIntensity = ''strong'' then Some (5 / 10, 1)
      else if ruleIntensity = ''medium to strong'' then Some (4 / 10, 1)
      else if ruleIntensity = ''medium'' then Some (2 / 10, 7 / 10)
      else if ruleIntensity = ''weak to medium'' then Some (1 / 10, 6 / 10)
      else if ruleIntensity = ''weak'' then Some (1 / 100, 3 / 10)
      else if ruleIntensity = ''variable'' then Some (0, 1)
      else None)"

definition intensityCheck :: "real \<Rightarrow> string \<Rightarrow> real \<Rightarrow> bool \<times> real" where
  "intensityCheck peakIntensity ruleIntensity spectrumMaxIntensity =
     (case thresholds ruleIntensity of
        None \<Rightarrow> (True, 0)
      | Some (minThresh, maxThresh) \<Rightarrow>
          let normIntensity = (if spectrumMaxIntensity > 0
                               then peakIntensity / spectrumMaxIntensity else 0)
          in if minThresh \<le> normIntensity \<and> normIntensity \<le> maxThresh then (True, 5 / 100)
             else (True, 0))"

text \<open>The range of a spec: \<^verbatim>\<open>spec.wavenumber || [0, 10000]\<close>.\<close>

definition rangeOf :: "peakSpec \<Rightarrow> real \<times> real" where
  "rangeOf spec = (case wavenumber spec of None \<Rightarrow> (0, 10000) | Some r \<Rightarrow> r)"

text \<open>
  The inner loop of \<^verbatim>\<open>findSecondaryPeaks\<close>: the first index of a peak inside the range
  of the spec (tolerance 0.1) and not further than the maximum gap from the primary peak.
\<close>

definition secondaryHit :: "real \<Rightarrow> peakSpec \<Rightarrow> real \<Rightarrow> peak \<Rightarrow> bool" where
  "secondaryHit primaryPosition spec maxWavenumberGap pk =
     (let specRange = rangeOf spec
      in wavenumberMatch (position pk) specRange (1 / 10)
         \<and> \<bar>position pk - primaryPosition\<bar> \<le> maxWavenumberGap)"

definition firstHit :: "real \<Rightarrow> peakSpec \<Rightarrow> real \<Rightarrow> peak list \<Rightarrow> nat option" where
  "firstHit primaryPosition spec maxWavenumberGap allPeaks =
     find (\<lambda>peakIdx. secondaryHit primaryPosition spec maxWavenumberGap (allPeaks ! peakIdx))
          [0..<length allPeaks]"

text \<open>The outer loop, with the matches pushed so far.\<close>

fun secondaryLoop ::
  "real \<Rightarrow> peakSpec list \<Rightarrow> peak list \<Rightarrow> real \<Rightarrow> (nat \<times> peakSpec) list \<Rightarrow> (nat \<times> peakSpec) list"
where
  "secondaryLoop primaryPosition [] allPeaks maxWavenumberGap matches = matches"
| "secondaryLoop primaryPosition (spec # specs) allPeaks maxWavenumberGap matches =
     (case firstHit primaryPosition spec maxWavenumberGap allPeaks of
        Some peakIdx \<Rightarrow>
          secondaryLoop primaryPosition specs allPeaks maxWavenumberGap (matches @ [(peakIdx, spec)])
      | None \<Rightarrow>
          if required spec then []
          else secondaryLoop primaryPosition specs allPeaks maxWavenumberGap matches)"

text \<open>
  \<^verbatim>\<open>peaks[primaryPeakIdx].position\<close> throws a TypeError when the index is not one of
  the peak list.
\<close>

definition findSecondaryPeaks ::
  "nat \<Rightarrow> peakSpec list \<Rightarrow> peak list \<Rightarrow> real \<Rightarrow> error + (nat \<times> peakSpec) list" where
  "findSecondaryPeaks primaryPeakIdx secondarySpecs allPeaks maxWavenumberGap =
     (if primaryPeakIdx < length allPeaks
      then Inr (secondaryLoop (position (allPeaks ! primaryPeakIdx)) secondarySpecs allPeaks
                  maxWavenumberGap [])
      else Inl TypeError)"

record scoring =
  baseConfidence :: real
  shapeBonus :: real
  intensityBonus :: real
  secondaryBonus :: real
  wavenumberMatched :: bool
  shapeMatched :: bool
  intensityMatched :: bool
  secondaryMatched :: bool

record candidate =
  vibrationMode :: string
  source :: string
  confidence :: real
  peakIndex :: nat
  ruleKey :: string
  ruleSubtype :: string
  secondaryPeaksFound :: nat
  candidateNotes :: string
  scoring :: scoring

definition clamp01 :: "real \<Rightarrow> real" where
  "clamp01 x = max 0 (min x 1)"

definition emptySpec :: peakSpec where
  "emptySpec = \<lparr>wavenumber = None, shape = None, specIntensity = None, required = False\<rparr>"

text \<open>The primary spec of a subtype: \<^verbatim>\<open>subtype.primaryPeak || {}\<close>.\<close>

definition primaryOf :: "subtype \<Rightarrow> peakSpec" where
  "primaryOf st = (case primaryPeak st of None \<Rightarrow> emptySpec | Some p \<Rightarrow> p)"

text \<open>
  The body of the inner loop of \<^verbatim>\<open>matchPeakCandidates\<close> for one subtype:
  \<open>Inr None\<close> is \<^verbatim>\<open>continue\<close>, \<open>Inr (Some c)\<close> is the candidate pushed, \<open>Inl\<close> is
  the exception of \<^verbatim>\<open>findSecondaryPeaks\<close>.
\<close>

definition matchSubtype ::
  "nat \<Rightarrow> peak \<Rightarrow> peak list \<Rightarrow> real \<Rightarrow> string \<Rightarrow> string \<Rightarrow> subtype \<Rightarrow> error + candidate option"
where
  "matchSubtype peakIdx pk allPeaks maxIntensity modeKey modeName st =
     (let primary = primaryOf st;
          primaryRange = rangeOf primary;
          primaryShape = orString (shape primary) ''sharp'';
          ruleIntensity = orString (specIntensity primary) ''medium''
      in if \<not> wavenumberMatch (position pk) primaryRange (5 / 100) then Inr None
         else let shapeRes = shapeMatch (fwhm pk) primaryShape
              in if \<not> fst shapeRes then Inr None
                 else
                   let intensityRes = intensityCheck (intensity pk) ruleIntensity maxIntensity;
                       baseConf = orNumber (subtypeConfidence st) (7 / 10);
                       adjusted = clamp01 (baseConf + snd shapeRes + snd intensityRes);
                       secondary = (case secondaryPeaks st of None \<Rightarrow> [] | Some ss \<Rightarrow> ss)
                   in case findSecondaryPeaks peakIdx secondary allPeaks 200 of
                        Inl e \<Rightarrow> Inl e
                      | Inr secondaryMatches \<Rightarrow>
                          let requiredMissing = (length (filter required secondary) > 0
                                                 \<and> length secondaryMatches = 0);
                              secBonus = (1 / 10) * real (length secondaryMatches);
                              final = (if requiredMissing then adjusted * (5 / 10)
                                       else clamp01 (adjusted + secBonus))
                          in Inr (Some
                               \<lparr>vibrationMode = modeName,
                                source = orString (subtypeSource st) ''unknown'',
                                confidence = toFixed final 3,
                                peakIndex = peakIdx,
                                ruleKey = modeKey,
                                ruleSubtype = orString (subtypeId st) ''?'',
                                secondaryPeaksFound = length secondaryMatches,
                                candidateNotes = orString (subtypeNotes st) [],
                                scoring =
                                  \<lparr>baseConfidence = toFixed baseConf 3,
                                   shapeBonus = toFixed (snd shapeRes) 3,
                                   intensityBonus = toFixed (snd intensityRes) 3,
                                   secondaryBonus = toFixed secBonus 3,
                                   wavenumberMatched = True,
                                   shapeMatched = fst shapeRes,
                                   intensityMatched = fst intensityRes,
                                   secondaryMatched = (length secondaryMatches > 0
                                                       \<or> length secondary = 0)\<rparr>\<rparr>))"

text \<open>The subtypes of the database in iteration order, each with its mode key and name.\<close>

definition ruleEntries :: "rulesDb \<Rightarrow> (string \<times> string \<times> subtype) list" where
  "ruleEntries db =
     concat (map (\<lambda>(modeKey, m).
                    map (\<lambda>st. (modeKey, orString (name m) modeKey, st))
                        (case subTypes m of None \<Rightarrow> [] | Some sts \<Rightarrow> sts))
                 db)"

text \<open>The two nested loops: the candidates pushed, or the first exception.\<close>

fun collectCandidates ::
  "nat \<Rightarrow> peak \<Rightarrow> peak list \<Rightarrow> real \<Rightarrow> (string \<times> string \<times> subtype) list \<Rightarrow> candidate list
     \<Rightarrow> error + candidate list"
where
  "collectCandidates peakIdx pk allPeaks maxIntensity [] candidates = Inr candidates"
| "collectCandidates peakIdx pk allPeaks maxIntensity ((modeKey, modeName, st) # entries) candidates =
     (case matchSubtype peakIdx pk allPeaks maxIntensity modeKey modeName st of
        Inl e \<Rightarrow> Inl e
      | Inr None \<Rightarrow> collectCandidates peakIdx pk allPeaks maxIntensity entries candidates
      | Inr (Some c) \<Rightarrow>
          collectCandidates peakIdx pk allPeaks maxIntensity entries (candidates @ [c]))"

text \<open>
  For an empty peak list \<^verbatim>\<open>maxIntensity\<close> is \<^verbatim>\<open>-Infinity\<close>; \<^verbatim>\<open>intensityCheck\<close> only
  asks whether it is positive, so that \<open>0\<close> stands in for it.
\<close>

definition matchPeakCandidates :: "nat \<Rightarrow> peak \<Rightarrow> rulesDb \<Rightarrow> peak list \<Rightarrow> error + candidate list" where
  "matchPeakCandidates peakIdx pk db allPeaks =
     (let maxIntensity = (case Math_max (map intensity allPeaks) of None \<Rightarrow> 0 | Some m \<Rightarrow> m)
      in case collectCandidates peakIdx pk allPeaks maxIntensity (ruleEntries db) [] of
           Inl e \<Rightarrow> Inl e
         | Inr candidates \<Rightarrow>
             Inr (take 5 (sortBy (\<lambda>a b. confidence b - confidence a) candidates)))"

record annotation =
  annPeakIndex :: nat
  peakPosition :: real
  peakIntensity :: real
  peakFwhm :: real
  peakSNR :: real
  primaryMatch :: candidate
  topFiveCandidates :: "candidate list"
  numCandidates :: nat
  confidenceRange :: "real list"
  isAmbiguous :: bool

fun matchAllPeaksFrom :: "nat \<Rightarrow> peak list \<Rightarrow> rulesDb \<Rightarrow> peak list \<Rightarrow> error + annotation list" where
  "matchAllPeaksFrom peakIdx [] db allPeaks = Inr []"
| "matchAllPeaksFrom peakIdx (pk # rest) db allPeaks =
     (case matchPeakCandidates peakIdx pk db allPeaks of
        Inl e \<Rightarrow> Inl e
      | Inr candidates \<Rightarrow>
          (case matchAllPeaksFrom (peakIdx + 1) rest db allPeaks of
             Inl e \<Rightarrow> Inl e
           | Inr annotations \<Rightarrow>
               if length candidates > 0
               then Inr (\<lparr>annPeakIndex = peakIdx,
                          peakPosition = toFixed (position pk) 2,
                          peakIntensity = toFixed (intensity pk) 4,
                          peakFwhm = toFixed (fwhm pk) 2,
                          peakSNR = toFixed (snr pk) 2,
                          primaryMatch = candidates ! 0,
                          topFiveCandidates = candidates,
                          numCandidates = length candidates,
                          confidenceRange = map confidence candidates,
                          isAmbiguous = (length candidates > 1
                            \<and> confidence (candidates ! 0) - confidence (candidates ! 1) < 5 / 100)\<rparr>
                         # annotations)
               else Inr annotations))"

definition matchAllPeaks :: "peak list \<Rightarrow> rulesDb \<Rightarrow> error + annotation list" where
  "matchAllPeaks allPeaks db = matchAllPeaksFrom 0 allPeaks db allPeaks"

section \<open>AmbiguityDetector (ruleMatcher.js, lines 275--304)\<close>



section \<open>Notions used in the statements\<close>

text \<open>The secondary specs of a subtype: \<^verbatim>\<open>subtype.secondaryPeaks || []\<close>.\<close>

definition secondarySpecs :: "subtype \<Rightarrow> peakSpec list" where
  "secondarySpecs st = (case secondaryPeaks st of None \<Rightarrow> [] | Some ss \<Rightarrow> ss)"

text \<open>
  The two gates of \<^verbatim>\<open>matchPeakCandidates\<close> (wavenumber and shape), and the two bonuses
  a peak that passes them gets from a subtype.
\<close>

definition passesGates :: "peak \<Rightarrow> subtype \<Rightarrow> bool" where
  "passesGates pk st =
     (wavenumberMatch (position pk) (rangeOf (primaryOf st)) (5 / 100)
      \<and> fst (shapeMatch (fwhm pk) (orString (shape (primaryOf st)) ''sharp'')))"

definition shapeBonusOf :: "peak \<Rightarrow> subtype \<Rightarrow> real" where
  "shapeBonusOf pk st = snd (shapeMatch (fwhm pk) (orString (shape (primaryOf st)) ''sharp''))"

definition intensityBonusOf :: "peak \<Rightarrow> subtype \<Rightarrow> real \<Rightarrow> real" where
  "intensityBonusOf pk st maxIntensity =
     snd (intensityCheck (intensity pk) (orString (specIntensity (primaryOf st)) ''medium'')
            maxIntensity)"

text \<open>
  The composition of the confidence as the specification words it: the clamped sum of
  base, shape bonus and intensity bonus, then either halved (a required secondary peak is
  missing) or increased by the secondary bonus and clamped again.
\<close>

definition composedConfidence :: "real \<Rightarrow> real \<Rightarrow> real \<Rightarrow> bool \<Rightarrow> real \<Rightarrow> real" where
  "composedConfidence base shapeB intensityB requiredMissing secondaryB =
     (if requiredMissing then clamp01 (base + shapeB + intensityB) * (1 / 2)
      else clamp01 (clamp01 (base + shapeB + intensityB) + secondaryB))"





text \<open>
  The prominence as the specification words it: the minimum over up to 50 samples to the
  left of \<open>i\<close>, that is the indices \<open>i - 50, \<dots>, i - 1\<close> that exist, and over up to 50
  samples to the right of \<open>i\<close>, the indices \<open>i + 1, \<dots>, i + 50\<close> that exist.
\<close>

definition specMinLeft :: "real list \<Rightarrow> nat \<Rightarrow> real" where
  "specMinLeft data i = fold (\<lambda>j m. min m (data ! j)) [i - 50..<i] (data ! i)"

definition specMinRight :: "real list \<Rightarrow> nat \<Rightarrow> real" where
  "specMinRight data i =
     fold (\<lambda>j m. min m (data ! j)) [i + 1..<min (length data) (i + 51)] (data ! i)"

definition specProminence :: "real list \<Rightarrow> nat \<Rightarrow> real" where
  "specProminence data i = min (data ! i - specMinLeft data i) (data ! i - specMinRight data i)"




section \<open>Example inputs\<close>

text \<open>
  A peak at 1715 with a width of 30, and a carbonyl rule for the range 1700--1750 with a
  sharp primary peak; the intensity class \<open>weak\<close> gives a lone peak no intensity bonus.
\<close>

definition peak1715 :: peak where
  "peak1715 = \<lparr>position = 1715, intensity = 8 / 10, fwhm = 30, height = 8 / 10,
               prominence = 4 / 100, snr = 50, index = 120\<rparr>"

definition carbonylPrimary :: peakSpec where
  "carbonylPrimary = \<lparr>wavenumber = Some (1700, 1750), shape = Some ''sharp'',
                      specIntensity = Some ''weak'', required = False\<rparr>"

definition carbonyl :: "real option \<Rightarrow> peakSpec list option \<Rightarrow> subtype" where
  "carbonyl conf secondary =
     \<lparr>subtypeId = Some ''ketone'', subtypeSource = Some ''example'',
      subtypeConfidence = conf, primaryPeak = Some carbonylPrimary,
      secondaryPeaks = secondary, subtypeNotes = None\<rparr>"

definition carbonylDb :: "real option \<Rightarrow> peakSpec list option \<Rightarrow> rulesDb" where
  "carbonylDb conf secondary =
     [(''C=O'', \<lparr>name = Some ''C=O stretch'', subTypes = Some [carbonyl conf secondary]\<rparr>)]"

text \<open>A secondary spec around the primary peak, and one far away from it.\<close>

definition nearSpec :: "bool \<Rightarrow> peakSpec" where
  "nearSpec req = \<lparr>wavenumber = Some (1700, 1750), shape = None, specIntensity = None,
                   required = req\<rparr>"

definition farSpec :: "bool \<Rightarrow> peakSpec" where
  "farSpec req = \<lparr>wavenumber = Some (3000, 3100), shape = None, specIntensity = None,
                  required = req\<rparr>"

text \<open>
  A database of six modes with one carbonyl rule each; the base confidences are not in
  order and one of them occurs twice.
\<close>

definition ruleWith :: "string \<Rightarrow> real \<Rightarrow> string \<times> mode" where
  "ruleWith key conf = (key, \<lparr>name = None, subTypes = Some [carbonyl (Some conf) None]\<rparr>)"

definition sixModes :: rulesDb where
  "sixModes = [ruleWith ''m1'' (45 / 100), ruleWith ''m2'' (85 / 100), ruleWith ''m3'' (65 / 100),
               ruleWith ''m4'' (85 / 100), ruleWith ''m5'' (55 / 100), ruleWith ''m6'' (75 / 100)]"



text \<open>
  A signal of 53 samples: a peak of height 1 at index 1, a shoulder of height 0.9 over the
  indices 2 to 50, and 0 from index 51 on.
\<close>

definition shoulderSignal :: "real list" where
  "shoulderSignal = [0, 1] @ replicate 49 (9 / 10) @ [0, 0]"



section \<open>Rounding and sorting\<close>













section \<open>Smoothing and baseline removal\<close>











section \<open>Confidence of the candidates\<close>



lemma shapeMatch_bonus: "fst (shapeMatch w s) \<Longrightarrow> snd (shapeMatch w s) = 0 \<or> snd (shapeMatch w s) = 5 / 100"
  by (auto simp: shapeMatch_def split: option.splits prod.splits if_splits)

lemma intensityCheck_bonus: "snd (intensityCheck p r m) = 0 \<or> snd (intensityCheck p r m) = 5 / 100"
  by (auto simp: intensityCheck_def Let_def split: option.splits prod.splits if_splits)

lemma toFixed_zero: "toFixed 0 d = 0"
  by (simp add: toFixed_def)

lemma toFixed_bonus: "x = 0 \<or> x = 5 / 100 \<Longrightarrow> toFixed x 3 = x"
proof (erule disjE)
  show "x = 0 \<Longrightarrow> toFixed x 3 = x" by (simp add: toFixed_zero)
  have "toFixed (5 / 100) 3 = 5 / 100" by (simp add: toFixed_def)
  then show "x = 5 / 100 \<Longrightarrow> toFixed x 3 = x" by (simp only:)
qed

lemma toFixed_tenths: "toFixed (real n / 10) 3 = real n / 10"
proof -
  have "\<lfloor>real (100 * n) + 1 / 2\<rfloor> = int (100 * n)"
    by (rule floor_unique) simp_all
  then show ?thesis
    by (simp add: toFixed_def)
qed

lemma matchSubtype_Some:
  assumes "matchSubtype peakIdx pk allPeaks maxI modeKey modeName st = Inr (Some c)"
  shows "confidence c =
           toFixed (composedConfidence (orNumber (subtypeConfidence st) (7 / 10))
                      (shapeBonus (scoring c)) (intensityBonus (scoring c))
                      (list_ex required (secondarySpecs st) \<and> secondaryPeaksFound c = 0)
                      (secondaryBonus (scoring c))) 3"
proof -
  let ?shape = "shapeMatch (fwhm pk) (orString (shape (primaryOf st)) ''sharp'')"
  let ?int = "intensityCheck (intensity pk) (orString (specIntensity (primaryOf st)) ''medium'') maxI"
  from assms have ok: "fst ?shape"
    by (auto simp: matchSubtype_def Let_def split: if_splits sum.splits)
  have sb: "toFixed (snd ?shape) 3 = snd ?shape"
    using shapeMatch_bonus [OF ok] by (rule toFixed_bonus)
  have ib: "toFixed (snd ?int) 3 = snd ?int"
    using intensityCheck_bonus by (rule toFixed_bonus)
  from assms show ?thesis
    by (auto simp: matchSubtype_def Let_def composedConfidence_def secondarySpecs_def sb ib
          toFixed_tenths toFixed_zero list_ex_iff filter_empty_conv
        split: if_splits sum.splits)
qed






text \<open>The definitions unfolded to evaluate the matcher on an example.\<close>

lemmas ex_defs = peak1715_def carbonylPrimary_def carbonyl_def carbonylDb_def nearSpec_def farSpec_def ruleWith_def sixModes_def
lemmas m_defs = matchPeakCandidates_def ruleEntries_def matchSubtype_def findSecondaryPeaks_def
  firstHit_def secondaryHit_def rangeOf_def primaryOf_def wavenumberMatch_def shapeMatch_def shapeSpecs_def intensityCheck_def thresholds_def
  orString_def orNumber_def clamp01_def toFixed_def sortBy_def Let_def


section \<open>Ranking of the candidates\<close>




section \<open>Secondary peaks\<close>

lemma firstHit_None_iff:
  "firstHit pp spec gap allPeaks = None \<longleftrightarrow> (\<forall>p \<in> set allPeaks. \<not> secondaryHit pp spec gap p)"
  by (simp add: firstHit_def find_None_iff all_set_conv_all_nth)

lemma firstHit_SomeD:
  "firstHit pp spec gap allPeaks = Some k \<Longrightarrow>
     k < length allPeaks \<and> secondaryHit pp spec gap (allPeaks ! k)
     \<and> (\<forall>j < k. \<not> secondaryHit pp spec gap (allPeaks ! j))"
  by (auto simp: firstHit_def find_Some_iff)


lemma secondaryLoop_all_required_found:
  "\<forall>s \<in> set specs. required s \<longrightarrow> firstHit pp s gap allPeaks \<noteq> None \<Longrightarrow>
     secondaryLoop pp specs allPeaks gap matches =
       matches @ concat (map (\<lambda>s. case firstHit pp s gap allPeaks of
                                     Some k \<Rightarrow> [(k, s)] | None \<Rightarrow> []) specs)"
proof (induction specs arbitrary: matches)
  case Nil
  then show ?case by simp
next
  case (Cons s specs)
  then have IH: "\<And>ms. secondaryLoop pp specs allPeaks gap ms =
       ms @ concat (map (\<lambda>s. case firstHit pp s gap allPeaks of
                                     Some k \<Rightarrow> [(k, s)] | None \<Rightarrow> []) specs)"
    by simp
  show ?case
  proof (cases "firstHit pp s gap allPeaks")
    case None
    with Cons.prems have "\<not> required s" by auto
    with None show ?thesis by (simp add: IH)
  next
    case (Some k)
    then show ?thesis by (simp add: IH)
  qed
qed


lemma matchSubtype_SomeD:
  assumes "matchSubtype peakIdx pk allPeaks maxI modeKey modeName st = Inr (Some c)"
  shows "peakIdx < length allPeaks" and "passesGates pk st"
    and "shapeBonus (scoring c) = shapeBonusOf pk st"
    and "intensityBonus (scoring c) = intensityBonusOf pk st maxI"
    and "secondaryPeaksFound c =
           length (secondaryLoop (position (allPeaks ! peakIdx)) (secondarySpecs st) allPeaks 200 [])"
    and "baseConfidence (scoring c) = toFixed (orNumber (subtypeConfidence st) (7 / 10)) 3"
    and "secondaryBonus (scoring c) = real (secondaryPeaksFound c) / 10"
proof -
  let ?shape = "shapeMatch (fwhm pk) (orString (shape (primaryOf st)) ''sharp'')"
  let ?int = "intensityCheck (intensity pk) (orString (specIntensity (primaryOf st)) ''medium'') maxI"
  from assms have ok: "fst ?shape"
    by (auto simp: matchSubtype_def Let_def split: if_splits sum.splits)
  have sb: "toFixed (snd ?shape) 3 = snd ?shape"
    using shapeMatch_bonus [OF ok] by (rule toFixed_bonus)
  have ib: "toFixed (snd ?int) 3 = snd ?int"
    using intensityCheck_bonus by (rule toFixed_bonus)
  from assms show "peakIdx < length allPeaks"
    by (auto simp: matchSubtype_def Let_def findSecondaryPeaks_def split: if_splits sum.splits)
  from assms show "passesGates pk st"
    by (auto simp: matchSubtype_def Let_def passesGates_def split: if_splits sum.splits)
  from assms show "shapeBonus (scoring c) = shapeBonusOf pk st"
    by (auto simp: matchSubtype_def Let_def shapeBonusOf_def sb split: if_splits sum.splits)
  from assms show "intensityBonus (scoring c) = intensityBonusOf pk st maxI"
    by (auto simp: matchSubtype_def Let_def intensityBonusOf_def ib split: if_splits sum.splits)
  from assms show "secondaryPeaksFound c =
           length (secondaryLoop (position (allPeaks ! peakIdx)) (secondarySpecs st) allPeaks 200 [])"
    by (auto simp: matchSubtype_def Let_def findSecondaryPeaks_def secondarySpecs_def
             split: if_splits sum.splits)
  from assms show "baseConfidence (scoring c) = toFixed (orNumber (subtypeConfidence st) (7 / 10)) 3"
    by (auto simp: matchSubtype_def Let_def split: if_splits sum.splits)
  from assms show "secondaryBonus (scoring c) = real (secondaryPeaksFound c) / 10"
    by (auto simp: matchSubtype_def Let_def toFixed_tenths split: if_splits sum.splits)
qed


lemma matchSubtype_fail:
  "\<not> passesGates pk st \<Longrightarrow> matchSubtype peakIdx pk allPeaks maxI modeKey modeName st = Inr None"
  by (auto simp: matchSubtype_def Let_def passesGates_def)




lemma secondaryHit_primary:
  assumes "wavenumberMatch pp (rangeOf spec) (1 / 10)" and "position p = pp" and "0 \<le> gap"
  shows "secondaryHit pp spec gap p"
  using assms by (simp add: secondaryHit_def)

text \<open>
  Claim C9, as amended. For a subtype that yields a candidate, a secondary spec whose
  range (tolerance 0.1) holds the position of the primary peak is satisfied by the primary
  peak itself, so that the search for it finds a peak and never causes the empty result.
  If moreover every required spec of the subtype finds a peak, the spec is among the
  matches, at least one secondary peak is counted, and the confidence is the re-clamped
  sum with the secondary bonus, not the halved score.
\<close>

theorem primary_peak_counts_as_secondary:
  assumes cand: "matchSubtype peakIdx pk allPeaks maxI modeKey modeName st = Inr (Some c)"
    and mem: "spec \<in> set (secondarySpecs st)"
    and inrange: "wavenumberMatch (position (allPeaks ! peakIdx)) (rangeOf spec) (1 / 10)"
  shows "secondaryHit (position (allPeaks ! peakIdx)) spec 200 (allPeaks ! peakIdx)
     \<and> (\<exists>k \<le> peakIdx. firstHit (position (allPeaks ! peakIdx)) spec 200 allPeaks = Some k
          \<and> ((\<forall>s \<in> set (secondarySpecs st).
                  required s \<longrightarrow> firstHit (position (allPeaks ! peakIdx)) s 200 allPeaks \<noteq> None)
               \<longrightarrow> (\<exists>ms. findSecondaryPeaks peakIdx (secondarySpecs st) allPeaks 200 = Inr ms
                         \<and> (k, spec) \<in> set ms)
                   \<and> 1 \<le> secondaryPeaksFound c
                   \<and> confidence c =
                       toFixed (clamp01 (clamp01 (orNumber (subtypeConfidence st) (7 / 10)
                                           + shapeBonusOf pk st + intensityBonusOf pk st maxI)
                                         + real (secondaryPeaksFound c) / 10)) 3))"
proof -
  let ?pp = "position (allPeaks ! peakIdx)"
  note d = matchSubtype_SomeD [OF cand]
  have hit: "secondaryHit ?pp spec 200 (allPeaks ! peakIdx)"
    using inrange by (intro secondaryHit_primary) simp_all
  then have "firstHit ?pp spec 200 allPeaks \<noteq> None"
    using d(1) by (auto simp: firstHit_None_iff)
  then obtain k where k: "firstHit ?pp spec 200 allPeaks = Some k" by blast
  have "k \<le> peakIdx"
  proof (rule ccontr)
    assume "\<not> k \<le> peakIdx"
    then have "peakIdx < k" by simp
    with firstHit_SomeD [OF k] hit show False by blast
  qed
  moreover have "(\<exists>ms. findSecondaryPeaks peakIdx (secondarySpecs st) allPeaks 200 = Inr ms
                         \<and> (k, spec) \<in> set ms)
                   \<and> 1 \<le> secondaryPeaksFound c
                   \<and> confidence c =
                       toFixed (clamp01 (clamp01 (orNumber (subtypeConfidence st) (7 / 10)
                                           + shapeBonusOf pk st + intensityBonusOf pk st maxI)
                                         + real (secondaryPeaksFound c) / 10)) 3"
    if all: "\<forall>s \<in> set (secondarySpecs st).
               required s \<longrightarrow> firstHit ?pp s 200 allPeaks \<noteq> None"
  proof -
    let ?ms = "concat (map (\<lambda>s. case firstHit ?pp s 200 allPeaks of
                                   Some k \<Rightarrow> [(k, s)] | None \<Rightarrow> []) (secondarySpecs st))"
    have loop: "secondaryLoop ?pp (secondarySpecs st) allPeaks 200 [] = ?ms"
      using secondaryLoop_all_required_found [OF all, of "[]"] by simp
    have in_ms: "(k, spec) \<in> set ?ms"
      using mem k by (auto intro!: bexI [of _ spec])
    have pos: "1 \<le> length ?ms"
      using length_pos_if_in_set [OF in_ms] by linarith
    have found: "secondaryPeaksFound c = length ?ms"
      using d(5) loop by simp
    with pos have nz: "secondaryPeaksFound c \<noteq> 0" by linarith
    have "findSecondaryPeaks peakIdx (secondarySpecs st) allPeaks 200 = Inr ?ms"
      using d(1) loop by (simp add: findSecondaryPeaks_def)
    moreover have "confidence c =
        toFixed (clamp01 (clamp01 (orNumber (subtypeConfidence st) (7 / 10)
                            + shapeBonusOf pk st + intensityBonusOf pk st maxI)
                          + real (secondaryPeaksFound c) / 10)) 3"
      using matchSubtype_Some [OF cand] d(3,4,7) nz
      by (simp add: composedConfidence_def)
    ultimately show ?thesis using in_ms pos found by auto
  qed
  ultimately show ?thesis using hit k by blast
qed


theorem primary_peak_counts_as_secondary_witness:
  "\<exists>c. matchSubtype 0 peak1715 [peak1715] (8 / 10) ''C=O'' ''C=O stretch''
          (carbonyl (Some (7 / 10)) (Some [nearSpec True])) = Inr (Some c)
     \<and> nearSpec True \<in> set (secondarySpecs (carbonyl (Some (7 / 10)) (Some [nearSpec True])))
     \<and> wavenumberMatch (position ([peak1715] ! 0)) (rangeOf (nearSpec True)) (1 / 10)
     \<and> secondaryHit (position ([peak1715] ! 0)) (nearSpec True) 200 ([peak1715] ! 0)
     \<and> firstHit (position ([peak1715] ! 0)) (nearSpec True) 200 [peak1715] = Some 0
     \<and> 1 \<le> secondaryPeaksFound c
     \<and> confidence c = 85 / 100"
proof -
  let ?st = "carbonyl (Some (7 / 10)) (Some [nearSpec True])"
  let ?pp = "position ([peak1715] ! 0)"
  obtain c where c: "matchSubtype 0 peak1715 [peak1715] (8 / 10) ''C=O'' ''C=O stretch'' ?st
                       = Inr (Some c)"
    and conf: "confidence c = 85 / 100"
    by (simp add: ex_defs m_defs)
  have mem: "nearSpec True \<in> set (secondarySpecs ?st)"
    by (simp add: ex_defs secondarySpecs_def)
  have inrange: "wavenumberMatch ?pp (rangeOf (nearSpec True)) (1 / 10)"
    by (simp add: ex_defs rangeOf_def wavenumberMatch_def)
  have all: "\<forall>s \<in> set (secondarySpecs ?st).
               required s \<longrightarrow> firstHit ?pp s 200 [peak1715] \<noteq> None"
    by (simp add: ex_defs secondarySpecs_def firstHit_def secondaryHit_def rangeOf_def
          wavenumberMatch_def)
  from primary_peak_counts_as_secondary [OF c mem inrange] all
  have "secondaryHit ?pp (nearSpec True) 200 ([peak1715] ! 0)"
    and "firstHit ?pp (nearSpec True) 200 [peak1715] = Some 0"
    and "1 \<le> secondaryPeaksFound c"
    by auto
  with c conf mem inrange show ?thesis by blast
qed

text \<open>
  Claim C9 as stated fails when another required spec of the subtype finds no peak: the
  spec around 1700--1750 holds the position of the primary peak, yet the search returns
  no match at all, no secondary peak is counted and the confidence is the halved score.
\<close>

theorem primary_peak_not_counted:
  "wavenumberMatch (position peak1715) (rangeOf (nearSpec True)) (1 / 10)
   \<and> findSecondaryPeaks 0 [nearSpec True, farSpec True] [peak1715] 200 = Inr []
   \<and> map_sum id (map secondaryPeaksFound)
        (matchPeakCandidates 0 peak1715
           (carbonylDb (Some (7 / 10)) (Some [nearSpec True, farSpec True])) [peak1715]) = Inr [0]
   \<and> map_sum id (map confidence)
        (matchPeakCandidates 0 peak1715
           (carbonylDb (Some (7 / 10)) (Some [nearSpec True, farSpec True])) [peak1715])
        = Inr [375 / 1000]"
  by (simp add: ex_defs m_defs)

text \<open>
  Claim C10. A subtype that declares the base confidence 0 gives, for every peak, the
  result of the same subtype without a declared base confidence, and a candidate it yields
  records the base confidence 0.7.
\<close>

theorem zero_confidence_is_default:
  "matchSubtype peakIdx pk allPeaks maxI modeKey modeName (st\<lparr>subtypeConfidence := Some 0\<rparr>)
     = matchSubtype peakIdx pk allPeaks maxI modeKey modeName (st\<lparr>subtypeConfidence := None\<rparr>)
   \<and> (\<forall>c. matchSubtype peakIdx pk allPeaks maxI modeKey modeName (st\<lparr>subtypeConfidence := Some 0\<rparr>)
            = Inr (Some c) \<longrightarrow>
          baseConfidence (scoring c) = 7 / 10
          \<and> confidence c =
              toFixed (composedConfidence (7 / 10) (shapeBonus (scoring c))
                         (intensityBonus (scoring c))
                         (list_ex required (secondarySpecs st) \<and> secondaryPeaksFound c = 0)
                         (secondaryBonus (scoring c))) 3)"
proof -
  have same: "matchSubtype peakIdx pk allPeaks maxI modeKey modeName (st\<lparr>subtypeConfidence := Some 0\<rparr>)
     = matchSubtype peakIdx pk allPeaks maxI modeKey modeName (st\<lparr>subtypeConfidence := None\<rparr>)"
    by (simp add: matchSubtype_def orNumber_def primaryOf_def Let_def cong: sum.case_cong)
  have r: "toFixed (7 / 10) 3 = 7 / 10"
    by (simp add: toFixed_def)
  have "baseConfidence (scoring c) = 7 / 10
          \<and> confidence c =
              toFixed (composedConfidence (7 / 10) (shapeBonus (scoring c))
                         (intensityBonus (scoring c))
                         (list_ex required (secondarySpecs st) \<and> secondaryPeaksFound c = 0)
                         (secondaryBonus (scoring c))) 3"
    if c: "matchSubtype peakIdx pk allPeaks maxI modeKey modeName (st\<lparr>subtypeConfidence := Some 0\<rparr>)
            = Inr (Some c)" for c
    using matchSubtype_SomeD(6) [OF c] matchSubtype_Some [OF c]
    by (simp add: orNumber_def r secondarySpecs_def)
  with same show ?thesis by blast
qed

theorem zero_confidence_is_default_witness:
  "\<exists>c. matchSubtype 0 peak1715 [peak1715] (8 / 10) ''C=O'' ''C=O stretch''
          (carbonyl (Some (1 / 2)) None\<lparr>subtypeConfidence := Some 0\<rparr>) = Inr (Some c)
     \<and> matchSubtype 0 peak1715 [peak1715] (8 / 10) ''C=O'' ''C=O stretch''
          (carbonyl (Some (1 / 2)) None\<lparr>subtypeConfidence := None\<rparr>) = Inr (Some c)
     \<and> baseConfidence (scoring c) = 7 / 10 \<and> confidence c = 75 / 100"
proof -
  let ?st = "carbonyl (Some (1 / 2)) None"
  obtain c where c: "matchSubtype 0 peak1715 [peak1715] (8 / 10) ''C=O'' ''C=O stretch''
                       (?st\<lparr>subtypeConfidence := Some 0\<rparr>) = Inr (Some c)"
    and conf: "confidence c = 75 / 100"
    by (simp add: ex_defs m_defs)
  from zero_confidence_is_default [of 0 peak1715 "[peak1715]" "8 / 10" "''C=O''" "''C=O stretch''" ?st] c
  have "matchSubtype 0 peak1715 [peak1715] (8 / 10) ''C=O'' ''C=O stretch''
          (?st\<lparr>subtypeConfidence := None\<rparr>) = Inr (Some c)"
    and "baseConfidence (scoring c) = 7 / 10"
    by auto
  with c conf show ?thesis by blast
qed

section \<open>Ambiguities\<close>






section \<open>Peak detection\<close>

lemma length_transmittanceToAbsorbance [simp]:
  "length (transmittanceToAbsorbance tm) = length tm"
  by (simp add: transmittanceToAbsorbance_def)

lemma length_savitzkyGolayFilter [simp]:
  "length (savitzkyGolayFilter d w p) = length d"
  by (simp add: savitzkyGolayFilter_def Let_def)

lemma length_removeLinearBaseline [simp]:
  "length (removeLinearBaseline d) = length d"
  by (simp add: removeLinearBaseline_def Let_def)


lemma distanceFilter_subset:
  "set (distanceFilter dst ps acc) \<subseteq> set ps \<union> set acc"
proof (induction ps arbitrary: acc)
  case Nil
  then show ?case by simp
next
  case (Cons a ps)
  show ?case
    using Cons.IH [of acc] Cons.IH [of "acc @ [a]"] by (auto split: if_splits)
qed

lemma findPeaks_peaks:
  "peaks (findPeaks d h p dst) =
     distanceFilter (case dst of Some d' \<Rightarrow> d'
                     | None \<Rightarrow> (if length d div 200 = 0 then 1 else length d div 200))
       (localMaxima d h (case p of Some p' \<Rightarrow> p'
                         | None \<Rightarrow> (case Math_max d of
                                       Some maxVal \<Rightarrow> maxVal * (5 / 100) | None \<Rightarrow> 0))) []"
  by (simp add: findPeaks_def Let_def)





















section \<open>Prominence\<close>

lemma fold_min_Min:
  "fold (\<lambda>j m. min m (f j)) js a = Min (insert a (f ` set js))"
proof (induction js arbitrary: a)
  case Nil
  then show ?case by simp
next
  case (Cons j js)
  have "fold (\<lambda>j m. min m (f j)) (j # js) a = Min (insert (min a (f j)) (f ` set js))"
    by (simp add: Cons.IH)
  also have "\<dots> = Min (insert a (insert (f j) (f ` set js)))"
    by (cases "js = []") (simp_all add: min.assoc)
  finally show ?case by simp
qed

lemma minLeft_window:
  "minLeft data i = Min (insert (data ! i) ((!) data ` {i - 50..<i}))"
  by (simp add: minLeft_def fold_min_Min)

lemma minRight_window:
  "minRight data i = Min (insert (data ! i) ((!) data ` {i + 1..<min (length data) (i + 50)}))"
  by (simp add: minRight_def fold_min_Min)

lemma window_sizes:
  "card {i - 50..<i} = min i 50 \<and> card {i + 1..<min (length data) (i + 50)} \<le> 49"
  by auto

text \<open>
  The window of the specification to the right of \<open>i\<close> has one sample more than the one
  of the code, the sample at \<open>i + 50\<close> when it exists.
\<close>

lemma specMinRight_minRight:
  "specMinRight data i =
     (if i + 50 < length data then min (minRight data i) (data ! (i + 50))
      else minRight data i)"
proof (cases "i + 50 < length data")
  case True
  then have "min (length data) (i + 51) = Suc (i + 50)" "min (length data) (i + 50) = i + 50"
    by simp_all
  then have "[i + 1..<min (length data) (i + 51)] = [i + 1..<min (length data) (i + 50)] @ [i + 50]"
    by (simp only: upt_Suc_append [of "i + 1" "i + 50"])
  with True show ?thesis
    by (simp add: specMinRight_def minRight_def)
next
  case False
  then have "min (length data) (i + 51) = min (length data) (i + 50)" by simp
  with False show ?thesis
    by (simp add: specMinRight_def minRight_def)
qed

lemma isPeak_iff:
  "isPeak data h p i \<longleftrightarrow>
     data ! i > data ! (i - 1) \<and> data ! i > data ! (i + 1) \<and> data ! i \<ge> h
     \<and> min (data ! i - minLeft data i) (data ! i - minRight data i) \<ge> p"
  by (simp add: isPeak_def peakProminence_def)

lemma findPeaks_kept:
  assumes "i \<in> set (peaks (findPeaks data h (Some p) dst))"
  shows "1 \<le> i \<and> i < length data - 1 \<and> isPeak data h p i"
proof -
  from assms have "i \<in> set (localMaxima data h p)"
    unfolding findPeaks_peaks using distanceFilter_subset by fastforce
  then show ?thesis by (auto simp: localMaxima_def)
qed

text \<open>
  Claim C6. A local maximum is kept only if \<open>min (signal[i] - minLeft, signal[i] - minRight)\<close>
  reaches the threshold, and \<open>minLeft\<close> is the minimum over the up to 50 samples to the left
  of \<open>i\<close>; but the loop for \<open>minRight\<close> stops one sample early and reads only up to 49
  samples to the right of \<open>i\<close>. In the shoulder signal the index 1 is a local maximum above
  the height 0.01 whose only low sample on the right is the 50th one: with windows of 50
  samples its prominence is 1, the code computes 0.1, and \<^verbatim>\<open>findPeaks\<close> with the
  threshold 0.5 returns no peak.
\<close>

theorem findPeaks_right_window_short:
  "shoulderSignal ! 1 > shoulderSignal ! 0 \<and> shoulderSignal ! 1 > shoulderSignal ! 2
   \<and> shoulderSignal ! 1 \<ge> 1 / 100
   \<and> specProminence shoulderSignal 1 = 1
   \<and> peakProminence shoulderSignal 1 = 1 / 10
   \<and> peaks (findPeaks shoulderSignal (1 / 100) (Some (1 / 2)) (Some 1)) = []"
proof -
  have "shoulderSignal ! 1 > shoulderSignal ! 0 \<and> shoulderSignal ! 1 > shoulderSignal ! 2
          \<and> shoulderSignal ! 1 \<ge> 1 / 100"
    by (simp add: shoulderSignal_def nth_append)
  moreover have "specProminence shoulderSignal 1 = 1"
    by (simp add: specProminence_def specMinLeft_def specMinRight_def shoulderSignal_def
          nth_append upt_rec)
  moreover have "peakProminence shoulderSignal 1 = 1 / 10"
    by (simp add: peakProminence_def minLeft_def minRight_def shoulderSignal_def nth_append
          upt_rec)
  moreover have "localMaxima shoulderSignal (1 / 100) (1 / 2) = []"
    by (simp add: localMaxima_def isPeak_def peakProminence_def minLeft_def minRight_def
          shoulderSignal_def nth_append upt_rec)
  then have "peaks (findPeaks shoulderSignal (1 / 100) (Some (1 / 2)) (Some 1)) = []"
    by (simp add: findPeaks_peaks)
  ultimately show ?thesis by blast
qed

end
